theory Spec2Isabelle
  imports Main
begin

section \<open>pancon: a converter between JSON, YAML and TOML\<close>

text \<open>
  The program (\<^verbatim>\<open>main.go\<close>) resolves an input and an output format, either given
  with \<^verbatim>\<open>-d\<close>/\<^verbatim>\<open>-e\<close> or guessed from the extension of the file name, opens the two
  streams, decodes the input into a \<^verbatim>\<open>map[string]interface{}\<close> and encodes that map to
  the output. Go strings are byte sequences and are modelled as \<open>string\<close> (a list of
  8-bit characters). Go's \<^verbatim>\<open>error\<close> results become the left summand of a sum type, a
  \<^verbatim>\<open>nil\<close> function value becomes \<open>None\<close>, and the operating system is an explicit
  state that every I/O call takes and returns.
\<close>

subsection \<open>Library functions used on file names\<close>

text \<open>
  \<^verbatim>\<open>filepath.Ext\<close> walks the path from its last byte towards the front, stops at a path
  separator, and returns the suffix that starts at the first dot it meets (the empty
  string when it meets none). The separator is the one of Unix systems.
\<close>

definition IsPathSeparator :: "char \<Rightarrow> bool" where
  "IsPathSeparator c = (c = CHR ''/'')"

text \<open>
  The first argument of \<open>ext_scan\<close> is the part of the path not yet visited, last byte
  first (\<^verbatim>\<open>path[i]\<close>, \<^verbatim>\<open>path[i-1]\<close>, ...); the second is \<^verbatim>\<open>path[i+1:]\<close>.
\<close>

fun ext_scan :: "string \<Rightarrow> string \<Rightarrow> string" where
  "ext_scan [] suffix = []"
| "ext_scan (c # front) suffix =
     (if IsPathSeparator c then []
      else if c = CHR ''.'' then c # suffix
      else ext_scan front (c # suffix))"

definition Ext :: "string \<Rightarrow> string" where
  "Ext path = ext_scan (rev path) []"

text \<open>
  \<^verbatim>\<open>strings.ToLower\<close> on the bytes \<^verbatim>\<open>'A'\<close> to \<^verbatim>\<open>'Z'\<close> (65 to 90) adds
  \<^verbatim>\<open>'a' - 'A'\<close>; every other byte below 128 is kept. Bytes from 128 on are kept here as
  they are, where Go maps whole code points. The only code points beyond ASCII whose
  lower case is an ASCII letter are U+0130 and U+212A, which give \<^verbatim>\<open>i\<close> and \<^verbatim>\<open>k\<close>;
  neither letter occurs in \<^verbatim>\<open>json\<close>, \<^verbatim>\<open>yaml\<close>, \<^verbatim>\<open>toml\<close>, \<^verbatim>\<open>yml\<close>, \<^verbatim>\<open>tml\<close> or
  \<^verbatim>\<open>js\<close>, so the extensions recognised are the same.
\<close>

definition lower_char :: "char \<Rightarrow> char" where
  "lower_char c =
     (let n = (of_char c :: nat)
      in if 65 \<le> n \<and> n \<le> 90 then char_of (n + 32) else c)"

definition ToLower :: "string \<Rightarrow> string" where
  "ToLower s = map lower_char s"

subsection \<open>Errors\<close>

text \<open>
  The program builds its errors with \<^verbatim>\<open>fmt.Errorf\<close>; each format string is a
  constructor here and \<open>Error\<close> renders the message. \<open>External\<close> is an error value
  returned by the operating system or by a codec library.
\<close>

datatype error =
    MissingFormatError string
  | UnresolvableExtensionError string
  | GuessingFormat error
  | UnknownFormat string
  | OpeningError string error
  | External string

fun Error :: "error \<Rightarrow> string" where
  "Error (MissingFormatError action) = ''format is required when '' @ action"
| "Error (UnresolvableExtensionError file) =
     ''can not detect format from file '' @ file @ '' extension''"
| "Error (GuessingFormat err) = ''guessing format: '' @ Error err"
| "Error (UnknownFormat format) = ''unknown input format '' @ format"
| "Error (OpeningError file err) = ''opening '' @ file @ '': '' @ Error err"
| "Error (External msg) = msg"

subsection \<open>Codec bindings and the registry\<close>

type_synonym bytes = string

text \<open>
  The document being converted is the Go value \<^verbatim>\<open>data\<close> of type
  \<^verbatim>\<open>map[string]interface{}\<close>: a map from strings to values of a type \<open>'v\<close> left open.
  A decoder reads the bytes of its reader into the map it is given and returns an error
  or the filled map; an encoder returns the bytes it wrote to its writer and the error
  it returned, if any.
\<close>

type_synonym 'v document = "string \<rightharpoonup> 'v"
type_synonym 'v decoder = "'v document \<Rightarrow> bytes \<Rightarrow> error + 'v document"
type_synonym 'v encoder = "'v document \<Rightarrow> bytes \<times> error option"

record 'v Coder =
  Format :: string
  Decode :: "'v decoder option"
  Encode :: "'v encoder option"

text \<open>
  The six functions \<^verbatim>\<open>readYAML\<close> ... \<^verbatim>\<open>writeTOML\<close> only call the libraries
  \<^verbatim>\<open>yaml.v2\<close>, \<^verbatim>\<open>encoding/json\<close> and \<^verbatim>\<open>BurntSushi/toml\<close>, which are not part of
  the program: they are parameters of the registry.
\<close>

record 'v codecs =
  readYAML :: "'v decoder"
  writeYAML :: "'v encoder"
  readJSON :: "'v decoder"
  writeJSON :: "'v encoder"
  readTOML :: "'v decoder"
  writeTOML :: "'v encoder"

definition coders :: "'v codecs \<Rightarrow> 'v Coder list" where
  "coders lib =
     [\<lparr>Format = ''yaml'', Decode = Some (readYAML lib), Encode = Some (writeYAML lib)\<rparr>,
      \<lparr>Format = ''json'', Decode = Some (readJSON lib), Encode = Some (writeJSON lib)\<rparr>,
      \<lparr>Format = ''toml'', Decode = Some (readTOML lib), Encode = Some (writeTOML lib)\<rparr>]"

text \<open>
  The functions below take the registry as their first argument \<open>cs\<close>, where the
  program reads the package variable \<^verbatim>\<open>coders\<close>; \<open>coders lib\<close> is its value.
\<close>

fun coderFor :: "'v Coder list \<Rightarrow> string \<Rightarrow> 'v Coder option" where
  "coderFor [] format = None"
| "coderFor (coder # rest) format =
     (if Format coder = format then Some coder else coderFor rest format)"

subsection \<open>Format resolution\<close>

definition guessformat :: "'v Coder list \<Rightarrow> string \<Rightarrow> error + string" where
  "guessformat cs file =
     (let e = ToLower (Ext file);
          e = (if e \<noteq> [] then
                 (let e = tl e
                  in if e = ''js'' then ''json''
                     else if e = ''yml'' then ''yaml''
                     else if e = ''tml'' then ''toml''
                     else e)
               else e)
      in case coderFor cs e of
           Some c \<Rightarrow> Inr e
         | None \<Rightarrow> Inl (UnresolvableExtensionError file))"

text \<open>
  \<open>coder_with\<close> is \<^verbatim>\<open>coder\<close> with the call of \<^verbatim>\<open>guessformat\<close> as a parameter, so
  that a theorem can say that a result does not depend on what guessing would return.
\<close>

definition coder_with ::
  "(string \<Rightarrow> error + string) \<Rightarrow> 'v Coder list \<Rightarrow> string \<Rightarrow> string \<Rightarrow> string
     \<Rightarrow> error + 'v Coder" where
  "coder_with guess cs file format action =
     (let resolved =
        (if format = [] then
           (if file = [] \<or> file = ''-'' then Inl (MissingFormatError action)
            else case guess file of
                   Inl err \<Rightarrow> Inl (GuessingFormat err)
                 | Inr f \<Rightarrow> Inr f)
         else Inr format)
      in case resolved of
           Inl err \<Rightarrow> Inl err
         | Inr format \<Rightarrow>
             (case coderFor cs format of
                Some c \<Rightarrow> Inr c
              | None \<Rightarrow> Inl (UnknownFormat format)))"

definition coder :: "'v Coder list \<Rightarrow> string \<Rightarrow> string \<Rightarrow> string \<Rightarrow> error + 'v Coder" where
  "coder cs file format action = coder_with (guessformat cs) cs file format action"

subsection \<open>Files and standard streams\<close>

text \<open>
  An \<^verbatim>\<open>*os.File\<close> is one of the two standard streams, a file opened by
  \<^verbatim>\<open>os.Open\<close> or a file created by \<^verbatim>\<open>os.Create\<close>. The state of the operating
  system holds the contents of the files, the bytes waiting on standard input, the
  bytes written to standard output so far, which paths \<^verbatim>\<open>os.Create\<close> refuses, what
  \<^verbatim>\<open>Close\<close> returns for each file, and the list of the calls made so far.
\<close>

datatype handle = Stdin | Stdout | OpenedFile string | CreatedFile string

datatype event =
    EvOpen string
  | EvCreate string
  | EvRead handle
  | EvWrite handle bytes
  | EvClose handle

record world =
  fs :: "string \<rightharpoonup> bytes"
  stdin_data :: bytes
  stdout_data :: bytes
  create_refused :: "string \<Rightarrow> bool"
  close_error :: "handle \<Rightarrow> string option"
  trace :: "event list"

definition record_event :: "event \<Rightarrow> world \<Rightarrow> world" where
  "record_event ev w = w\<lparr>trace := trace w @ [ev]\<rparr>"

text \<open>\<^verbatim>\<open>os.Open\<close> fails when the file does not exist.\<close>

definition os_Open :: "string \<Rightarrow> world \<Rightarrow> (error + handle) \<times> world" where
  "os_Open name w =
     (case fs w name of
        None \<Rightarrow>
          (Inl (External (''open '' @ name @ '': no such file or directory'')),
           record_event (EvOpen name) w)
      | Some content \<Rightarrow> (Inr (OpenedFile name), record_event (EvOpen name) w))"

text \<open>\<^verbatim>\<open>os.Create\<close> creates the file, or truncates it when it exists.\<close>

definition os_Create :: "string \<Rightarrow> world \<Rightarrow> (error + handle) \<times> world" where
  "os_Create name w =
     (if create_refused w name then
        (Inl (External (''open '' @ name @ '': permission denied'')),
         record_event (EvCreate name) w)
      else
        (Inr (CreatedFile name),
         record_event (EvCreate name) (w\<lparr>fs := (fs w)(name \<mapsto> [])\<rparr>)))"

definition Close :: "handle \<Rightarrow> world \<Rightarrow> error option \<times> world" where
  "Close f w = (map_option External (close_error w f), record_event (EvClose f) w)"

text \<open>
  A codec reads its reader to the end and writes to its writer: \<open>read_all\<close> gives the
  bytes a handle delivers, \<open>write_all\<close> appends bytes to what a handle has received.
\<close>

definition read_all :: "handle \<Rightarrow> world \<Rightarrow> bytes \<times> world" where
  "read_all f w =
     ((case f of
         Stdin \<Rightarrow> stdin_data w
       | OpenedFile name \<Rightarrow> (case fs w name of Some content \<Rightarrow> content | None \<Rightarrow> [])
       | Stdout \<Rightarrow> []
       | CreatedFile name \<Rightarrow> []),
      record_event (EvRead f) w)"

definition write_all :: "handle \<Rightarrow> bytes \<Rightarrow> world \<Rightarrow> world" where
  "write_all f out w =
     record_event (EvWrite f out)
       (case f of
          Stdout \<Rightarrow> w\<lparr>stdout_data := stdout_data w @ out\<rparr>
        | CreatedFile name \<Rightarrow>
            w\<lparr>fs := (fs w)(name \<mapsto> (case fs w name of Some old \<Rightarrow> old | None \<Rightarrow> []) @ out)\<rparr>
        | Stdin \<Rightarrow> w
        | OpenedFile name \<Rightarrow> w)"

text \<open>
  \<^verbatim>\<open>file\<close> (here \<open>file_stream\<close>) returns the stream, the function that releases it,
  and an error. The program builds two such functions: \<^verbatim>\<open>func() error { return nil }\<close>
  is \<open>NoClose\<close>, and \<^verbatim>\<open>func() error { return f.Close() }\<close> is \<open>CloseFile f\<close>;
  \<open>run_closer\<close> calls one. The program does not use the parameter \<^verbatim>\<open>format\<close>.
\<close>

datatype closer = NoClose | CloseFile handle

fun run_closer :: "closer \<Rightarrow> world \<Rightarrow> error option \<times> world" where
  "run_closer NoClose w = (None, w)"
| "run_closer (CloseFile f) w = Close f w"

type_synonym opener = "string \<Rightarrow> world \<Rightarrow> (error + handle) \<times> world"

definition file_stream ::
  "string \<Rightarrow> string \<Rightarrow> handle \<Rightarrow> opener \<Rightarrow> world \<Rightarrow> (error + handle \<times> closer) \<times> world" where
  "file_stream name format defaultfile opener w =
     (if name = [] \<or> name = ''-'' then (Inr (defaultfile, NoClose), w)
      else
        (case opener name w of
           (Inl err, w') \<Rightarrow> (Inl (OpeningError name err), w')
         | (Inr f, w') \<Rightarrow> (Inr (f, CloseFile f), w')))"

subsection \<open>The program\<close>

text \<open>
  How \<^verbatim>\<open>main\<close> ends: it returns, or \<^verbatim>\<open>app.FatalIfError(err, context)\<close> or
  \<^verbatim>\<open>app.Fatalf\<close> print a message and leave with \<^verbatim>\<open>os.Exit(1)\<close>, or a \<^verbatim>\<open>nil\<close>
  function value is called and the program panics.
\<close>

datatype unsupported = NotSupportedForDecoding string | NotSupportedForEncoding string

fun unsupported_message :: "unsupported \<Rightarrow> string" where
  "unsupported_message (NotSupportedForDecoding format) =
     ''input format '' @ format @ '' not supported for decoding''"
| "unsupported_message (NotSupportedForEncoding format) =
     ''output format '' @ format @ '' not supported for encoding''"

datatype outcome =
    Returned
  | Fatal string error
  | Fatalf unsupported
  | Panic

text \<open>
  The deferred functions run when \<^verbatim>\<open>main\<close> returns and when it panics, the last one
  deferred first, and each ends the program when its closer returns an error. They do
  not run after \<^verbatim>\<open>os.Exit\<close>.
\<close>

definition run_deferred :: "closer \<Rightarrow> closer \<Rightarrow> outcome \<Rightarrow> world \<Rightarrow> outcome \<times> world" where
  "run_deferred incloser outcloser ending w =
     (case run_closer outcloser w of
        (Some err, w') \<Rightarrow> (Fatal ''closing output file'' err, w')
      | (None, w') \<Rightarrow>
          (case run_closer incloser w' of
             (Some err, w'') \<Rightarrow> (Fatal ''closing input file'' err, w'')
           | (None, w'') \<Rightarrow> (ending, w'')))"

text \<open>
  \<open>main\<close> starts after the command line has been parsed: its arguments are the registry
  and the values of the four flags (the empty string for a flag not given).
\<close>

definition main ::
  "'v Coder list \<Rightarrow> string \<Rightarrow> string \<Rightarrow> string \<Rightarrow> string \<Rightarrow> world \<Rightarrow> outcome \<times> world" where
  "main cs inputFile inputFormat outputFile outputFormat w =
     (case coder cs inputFile inputFormat ''reading from stdin'' of
        Inl err \<Rightarrow> (Fatal ''input'' err, w)
      | Inr incoder \<Rightarrow>
     (case Decode incoder of
        None \<Rightarrow> (Fatalf (NotSupportedForDecoding (Format incoder)), w)
      | Some decode \<Rightarrow>
     (case coder cs outputFile outputFormat ''writing to stdout'' of
        Inl err \<Rightarrow> (Fatal ''output'' err, w)
      | Inr outcoder \<Rightarrow>
     (case Decode outcoder of
        None \<Rightarrow> (Fatalf (NotSupportedForEncoding (Format outcoder)), w)
      | Some unused \<Rightarrow>
     (case file_stream inputFile inputFormat Stdin os_Open w of
        (Inl err, w1) \<Rightarrow> (Fatal ''opening input'' err, w1)
      | (Inr (infile, incloser), w1) \<Rightarrow>
     (case file_stream outputFile outputFormat Stdout os_Create w1 of
        (Inl err, w2) \<Rightarrow> (Fatal ''opening output'' err, w2)
      | (Inr (outfile, outcloser), w2) \<Rightarrow>
     (case read_all infile w2 of (input, w3) \<Rightarrow>
     (case decode Map.empty input of
        Inl err \<Rightarrow> (Fatal ''decoding'' err, w3)
      | Inr data \<Rightarrow>
     (case Encode outcoder of
        None \<Rightarrow> run_deferred incloser outcloser Panic w3
      | Some encode \<Rightarrow>
     (case encode data of
        (out, Some err) \<Rightarrow> (Fatal ''encoding'' err, write_all outfile out w3)
      | (out, None) \<Rightarrow>
          run_deferred incloser outcloser Returned (write_all outfile out w3)))))))))))"

subsection \<open>The other revision of the program\<close>

text \<open>
  The second source file is another revision of the same program. Its \<^verbatim>\<open>Coder\<close> has
  no \<^verbatim>\<open>Format\<close> field, its registry is a Go map from format names to bindings, looked
  up with \<^verbatim>\<open>coders[format]\<close>, and its \<^verbatim>\<open>main\<close> calls \<^verbatim>\<open>Decode\<close> and \<^verbatim>\<open>Encode\<close>
  without testing them against \<^verbatim>\<open>nil\<close>. \<^verbatim>\<open>file\<close> is the same function. The names
  of this revision carry the suffix \<open>_rev\<close>.
\<close>

record 'v Coder_rev =
  Encode_rev :: "'v encoder option"
  Decode_rev :: "'v decoder option"

definition coders_rev :: "'v codecs \<Rightarrow> string \<rightharpoonup> 'v Coder_rev" where
  "coders_rev lib =
     [''yaml'' \<mapsto> \<lparr>Encode_rev = Some (writeYAML lib), Decode_rev = Some (readYAML lib)\<rparr>,
      ''json'' \<mapsto> \<lparr>Encode_rev = Some (writeJSON lib), Decode_rev = Some (readJSON lib)\<rparr>,
      ''toml'' \<mapsto> \<lparr>Encode_rev = Some (writeTOML lib), Decode_rev = Some (readTOML lib)\<rparr>]"

definition guessformat_rev :: "(string \<rightharpoonup> 'v Coder_rev) \<Rightarrow> string \<Rightarrow> error + string" where
  "guessformat_rev cs file =
     (let e = ToLower (Ext file);
          e = (if e \<noteq> [] then
                 (let e = tl e
                  in if e = ''js'' then ''json''
                     else if e = ''yml'' then ''yaml''
                     else if e = ''tml'' then ''toml''
                     else e)
               else e)
      in case cs e of
           Some c \<Rightarrow> Inr e
         | None \<Rightarrow> Inl (UnresolvableExtensionError file))"

definition coder_rev ::
  "(string \<rightharpoonup> 'v Coder_rev) \<Rightarrow> string \<Rightarrow> string \<Rightarrow> string \<Rightarrow> error + 'v Coder_rev" where
  "coder_rev cs file format action =
     (let resolved =
        (if format = [] then
           (if file = [] \<or> file = ''-'' then Inl (MissingFormatError action)
            else case guessformat_rev cs file of
                   Inl err \<Rightarrow> Inl (GuessingFormat err)
                 | Inr f \<Rightarrow> Inr f)
         else Inr format)
      in case resolved of
           Inl err \<Rightarrow> Inl err
         | Inr format \<Rightarrow>
             (case cs format of
                Some c \<Rightarrow> Inr c
              | None \<Rightarrow> Inl (UnknownFormat format)))"

definition main_rev ::
  "(string \<rightharpoonup> 'v Coder_rev) \<Rightarrow> string \<Rightarrow> string \<Rightarrow> string \<Rightarrow> string \<Rightarrow> world
     \<Rightarrow> outcome \<times> world" where
  "main_rev cs inputFile inputFormat outputFile outputFormat w =
     (case coder_rev cs inputFile inputFormat ''reading from stdin'' of
        Inl err \<Rightarrow> (Fatal ''input'' err, w)
      | Inr incoder \<Rightarrow>
     (case coder_rev cs outputFile outputFormat ''writing to stdout'' of
        Inl err \<Rightarrow> (Fatal ''output'' err, w)
      | Inr outcoder \<Rightarrow>
     (case file_stream inputFile inputFormat Stdin os_Open w of
        (Inl err, w1) \<Rightarrow> (Fatal ''opening input'' err, w1)
      | (Inr (infile, incloser), w1) \<Rightarrow>
     (case file_stream outputFile outputFormat Stdout os_Create w1 of
        (Inl err, w2) \<Rightarrow> (Fatal ''opening output'' err, w2)
      | (Inr (outfile, outcloser), w2) \<Rightarrow>
     (case Decode_rev incoder of
        None \<Rightarrow> run_deferred incloser outcloser Panic w2
      | Some decode \<Rightarrow>
     (case read_all infile w2 of (input, w3) \<Rightarrow>
     (case decode Map.empty input of
        Inl err \<Rightarrow> (Fatal ''decoding'' err, w3)
      | Inr data \<Rightarrow>
     (case Encode_rev outcoder of
        None \<Rightarrow> run_deferred incloser outcloser Panic w3
      | Some encode \<Rightarrow>
     (case encode data of
        (out, Some err) \<Rightarrow> (Fatal ''encoding'' err, write_all outfile out w3)
      | (out, None) \<Rightarrow>
          run_deferred incloser outcloser Returned (write_all outfile out w3))))))))))"

text \<open>A binding of the first revision, seen as a binding of the second.\<close>

definition without_Format :: "'v Coder \<Rightarrow> 'v Coder_rev" where
  "without_Format c = \<lparr>Encode_rev = Encode c, Decode_rev = Decode c\<rparr>"

subsection \<open>What the specification calls an extension\<close>

text \<open>
  The specification speaks of the extension of a path, lower-cased and without its
  leading dot, of the six extensions that are recognised, and of the alias table
  \<^verbatim>\<open>yml\<close> to \<^verbatim>\<open>yaml\<close>, \<^verbatim>\<open>tml\<close> to \<^verbatim>\<open>toml\<close>, \<^verbatim>\<open>js\<close> to \<^verbatim>\<open>json\<close>. The
  definitions of this subsection follow its words; the theorems compare them with
  \<open>guessformat\<close> and \<open>coder\<close>.
\<close>

definition extension :: "string \<Rightarrow> string" where
  "extension p = drop 1 (ToLower (Ext p))"

definition known_extensions :: "string set" where
  "known_extensions = {''json'', ''yaml'', ''toml'', ''yml'', ''tml'', ''js''}"

definition alias_table :: "(string \<times> string) list" where
  "alias_table = [(''yml'', ''yaml''), (''tml'', ''toml''), (''js'', ''json'')]"

definition alias_normalized :: "string \<Rightarrow> string" where
  "alias_normalized e = (case map_of alias_table e of Some f \<Rightarrow> f | None \<Rightarrow> e)"

definition format_tokens :: "string set" where
  "format_tokens = {''json'', ''yaml'', ''toml''}"

subsection \<open>A stand-in for the codec libraries\<close>

text \<open>
  Concrete instances of the theorems need concrete codecs. In \<open>toy_codecs\<close> a document
  has values of type \<open>nat\<close>; a decoder rejects the empty input and the input
  \<^verbatim>\<open>{"a":\<close>, and otherwise stores the length of the input under the key \<^verbatim>\<open>len\<close>; an
  encoder writes the name of its format.
\<close>

definition toy_read :: "nat decoder" where
  "toy_read data input =
     (if input = [] \<or> input = ''{\"a\":'' then Inl (External ''unexpected end of input'')
      else Inr (data(''len'' \<mapsto> length input)))"

definition toy_codecs :: "nat codecs" where
  "toy_codecs =
     \<lparr>readYAML = toy_read, writeYAML = (\<lambda>data. (''yaml'', None)),
      readJSON = toy_read, writeJSON = (\<lambda>data. (''json'', None)),
      readTOML = toy_read, writeTOML = (\<lambda>data. (''toml'', None))\<rparr>"

subsection \<open>Notions used in the statements about the program\<close>

text \<open>The program left through \<^verbatim>\<open>os.Exit(1)\<close>, after printing an error.\<close>

definition exits_with_error :: "outcome \<Rightarrow> bool" where
  "exits_with_error ending =
     (case ending of
        Fatal context err \<Rightarrow> True
      | Fatalf u \<Rightarrow> True
      | Returned \<Rightarrow> False
      | Panic \<Rightarrow> False)"

text \<open>
  A state of the operating system for concrete runs: an input file, an output file
  that already has contents, and a truncated JSON document on standard input.
\<close>

definition sample_world :: world where
  "sample_world =
     \<lparr>fs = [''in.json'' \<mapsto> ''{\"a\": 1}'', ''out.yaml'' \<mapsto> ''old contents''],
      stdin_data = ''{\"a\":'',
      stdout_data = [],
      create_refused = (\<lambda>name. False),
      close_error = (\<lambda>f. None),
      trace = []\<rparr>"

text \<open>The same state with a complete JSON document on standard input.\<close>

definition piped_world :: world where
  "piped_world = sample_world\<lparr>stdin_data := ''{\"a\": 1}''\<rparr>"

section \<open>Properties of format resolution\<close>

lemma coderFor_coders:
  "coderFor (coders lib) f =
     (if f = ''yaml'' then
        Some \<lparr>Format = ''yaml'', Decode = Some (readYAML lib), Encode = Some (writeYAML lib)\<rparr>
      else if f = ''json'' then
        Some \<lparr>Format = ''json'', Decode = Some (readJSON lib), Encode = Some (writeJSON lib)\<rparr>
      else if f = ''toml'' then
        Some \<lparr>Format = ''toml'', Decode = Some (readTOML lib), Encode = Some (writeTOML lib)\<rparr>
      else None)"
  by (simp add: coders_def)

lemma coderFor_Format: "coderFor cs f = Some c \<Longrightarrow> Format c = f"
  by (induction cs) (auto split: if_splits)

lemma coderFor_coders_Some:
  "f \<in> format_tokens \<Longrightarrow> \<exists>c. coderFor (coders lib) f = Some c \<and> Format c = f"
  by (auto simp: coderFor_coders format_tokens_def)

lemma coderFor_coders_None: "f \<notin> format_tokens \<Longrightarrow> coderFor (coders lib) f = None"
  by (simp add: coderFor_coders format_tokens_def)

lemma alias_normalized_simps:
  "alias_normalized ''yml'' = ''yaml''"
  "alias_normalized ''tml'' = ''toml''"
  "alias_normalized ''js'' = ''json''"
  "e \<noteq> ''yml'' \<Longrightarrow> e \<noteq> ''tml'' \<Longrightarrow> e \<noteq> ''js'' \<Longrightarrow> alias_normalized e = e"
  by (simp_all add: alias_normalized_def alias_table_def)

lemma alias_normalized_token:
  "e \<in> known_extensions \<Longrightarrow> alias_normalized e \<in> format_tokens"
  by (auto simp: known_extensions_def format_tokens_def alias_normalized_def alias_table_def)

lemma alias_normalized_unknown:
  "e \<notin> known_extensions \<Longrightarrow> alias_normalized e \<notin> format_tokens"
  by (auto simp: known_extensions_def format_tokens_def alias_normalized_def alias_table_def)

text \<open>
  The body of \<open>guessformat\<close> computes \<open>alias_normalized (extension file)\<close>: the
  switch is the alias table, and an empty result of \<^verbatim>\<open>filepath.Ext\<close> stays empty.
\<close>

lemma guessformat_unfold:
  "guessformat cs file =
     (case coderFor cs (alias_normalized (extension file)) of
        Some c \<Rightarrow> Inr (alias_normalized (extension file))
      | None \<Rightarrow> Inl (UnresolvableExtensionError file))"
proof (cases "ToLower (Ext file)")
  case Nil
  then show ?thesis
    by (simp add: guessformat_def extension_def alias_normalized_def alias_table_def
        split: option.split)
next
  case (Cons d e)
  then show ?thesis
    by (simp add: guessformat_def extension_def alias_normalized_def alias_table_def Let_def
        split: option.split)
qed

lemma guessformat_coders:
  "guessformat (coders lib) p =
     (if extension p \<in> known_extensions then Inr (alias_normalized (extension p))
      else Inl (UnresolvableExtensionError p))"
proof (cases "extension p \<in> known_extensions")
  case True
  from coderFor_coders_Some [OF alias_normalized_token [OF True]]
  obtain c where "coderFor (coders lib) (alias_normalized (extension p)) = Some c"
    by blast
  with True show ?thesis by (simp add: guessformat_unfold)
next
  case False
  from coderFor_coders_None [OF alias_normalized_unknown [OF False]]
  have "coderFor (coders lib) (alias_normalized (extension p)) = None" .
  with False show ?thesis by (simp add: guessformat_unfold)
qed

lemma coder_with_explicit:
  "format \<noteq> [] \<Longrightarrow>
   coder_with guess cs file format action =
     (case coderFor cs format of Some c \<Rightarrow> Inr c | None \<Rightarrow> Inl (UnknownFormat format))"
  by (simp add: coder_with_def)

lemma coder_with_missing:
  "file = [] \<or> file = ''-'' \<Longrightarrow>
   coder_with guess cs file [] action = Inl (MissingFormatError action)"
  by (auto simp: coder_with_def)

lemma coder_with_guess:
  "file \<noteq> [] \<Longrightarrow> file \<noteq> ''-'' \<Longrightarrow>
   coder_with guess cs file [] action =
     (case guess file of
        Inl err \<Rightarrow> Inl (GuessingFormat err)
      | Inr f \<Rightarrow>
          (case coderFor cs f of Some c \<Rightarrow> Inr c | None \<Rightarrow> Inl (UnknownFormat f)))"
  by (simp add: coder_with_def split: sum.split)

lemma format_tokens_nonempty: "f \<in> format_tokens \<Longrightarrow> f \<noteq> []"
  by (auto simp: format_tokens_def)

lemma Ext_dotted:
  "Ext (q @ ''.yml'') = ''.yml''"
  "Ext (q @ ''.tml'') = ''.tml''"
  "Ext (q @ ''.js'') = ''.js''"
  by (simp_all add: Ext_def IsPathSeparator_def)

lemma ToLower_aliases:
  "ToLower ''.yml'' = ''.yml''"
  "ToLower ''.tml'' = ''.tml''"
  "ToLower ''.js'' = ''.js''"
  by code_simp+

lemma extension_dotted:
  "extension (q @ ''.yml'') = ''yml''"
  "extension (q @ ''.tml'') = ''tml''"
  "extension (q @ ''.js'') = ''js''"
  by (simp_all add: extension_def Ext_dotted ToLower_aliases)

lemma extension_examples:
  "extension ''conf/App.YML'' = ''yml''"
  "extension ''notes.txt'' = ''txt''"
  "extension ''-'' = []"
  "extension ''data.yaml'' = ''yaml''"
  "extension ''in.json'' = ''json''"
  "extension ''out.yaml'' = ''yaml''"
  by code_simp+

subsection \<open>Inference from the extension\<close>

text \<open>
  C2, as amended. \<open>guessformat\<close> answers every path by its extension: when the extension,
  lower-cased and without its dot, is one of \<^verbatim>\<open>json\<close>, \<^verbatim>\<open>yaml\<close>, \<^verbatim>\<open>toml\<close>,
  \<^verbatim>\<open>yml\<close>, \<^verbatim>\<open>tml\<close>, \<^verbatim>\<open>js\<close>, it returns the identifier the alias table gives, and
  otherwise it fails with the error that names the path. Format resolution (\<open>coder\<close>)
  with no explicit format does the same, returning the binding registered under that
  identifier and wrapping the error in \<^verbatim>\<open>guessing format:\<close>, for every path that is
  neither empty nor \<^verbatim>\<open>-\<close>.
\<close>

theorem extension_inference:
  "guessformat (coders lib) p =
     (if extension p \<in> known_extensions then Inr (alias_normalized (extension p))
      else Inl (UnresolvableExtensionError p)) \<and>
   (p \<noteq> [] \<and> p \<noteq> ''-'' \<longrightarrow>
      (if extension p \<in> known_extensions
       then \<exists>c. coder (coders lib) p [] action = Inr c \<and>
                coderFor (coders lib) (alias_normalized (extension p)) = Some c \<and>
                Format c = alias_normalized (extension p)
       else coder (coders lib) p [] action =
              Inl (GuessingFormat (UnresolvableExtensionError p))))"
proof (intro conjI impI)
  show "guessformat (coders lib) p =
     (if extension p \<in> known_extensions then Inr (alias_normalized (extension p))
      else Inl (UnresolvableExtensionError p))"
    by (rule guessformat_coders)
next
  assume named: "p \<noteq> [] \<and> p \<noteq> ''-''"
  show "if extension p \<in> known_extensions
       then \<exists>c. coder (coders lib) p [] action = Inr c \<and>
                coderFor (coders lib) (alias_normalized (extension p)) = Some c \<and>
                Format c = alias_normalized (extension p)
       else coder (coders lib) p [] action =
              Inl (GuessingFormat (UnresolvableExtensionError p))"
  proof (cases "extension p \<in> known_extensions")
    case True
    from coderFor_coders_Some [OF alias_normalized_token [OF True]]
    obtain c where c: "coderFor (coders lib) (alias_normalized (extension p)) = Some c"
      "Format c = alias_normalized (extension p)"
      by blast
    from named True c have "coder (coders lib) p [] action = Inr c"
      by (simp add: coder_def coder_with_guess guessformat_coders)
    with True c show ?thesis by simp
  next
    case False
    with named show ?thesis
      by (simp add: coder_def coder_with_guess guessformat_coders)
  qed
qed

text \<open>
  The theorem at \<^verbatim>\<open>conf/App.YML\<close>, whose extension is an alias in upper case, and at
  \<^verbatim>\<open>notes.txt\<close>, whose extension is unknown.
\<close>

theorem extension_inference_witness:
  "guessformat (coders toy_codecs) ''conf/App.YML'' = Inr ''yaml'' \<and>
   (\<exists>c. coder (coders toy_codecs) ''conf/App.YML'' [] ''reading from stdin'' = Inr c \<and>
        Format c = ''yaml'') \<and>
   guessformat (coders toy_codecs) ''notes.txt'' = Inl (UnresolvableExtensionError ''notes.txt'') \<and>
   coder (coders toy_codecs) ''notes.txt'' [] ''reading from stdin'' =
     Inl (GuessingFormat (UnresolvableExtensionError ''notes.txt''))"
  using extension_inference [of toy_codecs "''conf/App.YML''" "''reading from stdin''"]
    extension_inference [of toy_codecs "''notes.txt''" "''reading from stdin''"]
  by (auto simp: extension_examples known_extensions_def alias_normalized_simps)

text \<open>
  C2 as it is stated fails at the path \<^verbatim>\<open>-\<close>. It has no extension, so the claim asks
  for the error that names the path; \<open>coder\<close> returns the error of a missing format
  instead, from the test \<^verbatim>\<open>file == "" || file == "-"\<close> that comes before the call of
  \<^verbatim>\<open>guessformat\<close>.
\<close>

theorem sentinel_path_counterexample:
  "extension ''-'' \<notin> known_extensions \<and>
   coder (coders toy_codecs) ''-'' [] ''reading from stdin'' =
     Inl (MissingFormatError ''reading from stdin'') \<and>
   coder (coders toy_codecs) ''-'' [] ''reading from stdin'' \<noteq>
     Inl (GuessingFormat (UnresolvableExtensionError ''-'')) \<and>
   coder (coders toy_codecs) ''-'' [] ''reading from stdin'' \<noteq>
     Inl (UnresolvableExtensionError ''-'')"
  by (simp add: extension_examples known_extensions_def coder_def coder_with_missing)

subsection \<open>An explicit format\<close>

text \<open>
  C3. For each of the three format identifiers given explicitly, format resolution
  returns the binding registered under that identifier, the same one for every path
  (the empty path and \<^verbatim>\<open>-\<close> included) and for every result that guessing from the path
  could have given.
\<close>

theorem explicit_format_precedence:
  "f \<in> format_tokens \<Longrightarrow>
   \<exists>c. coderFor (coders lib) f = Some c \<and> Format c = f \<and>
       (\<forall>guess p action. coder_with guess (coders lib) p f action = Inr c) \<and>
       (\<forall>p action. coder (coders lib) p f action = Inr c)"
proof -
  assume f: "f \<in> format_tokens"
  from coderFor_coders_Some [OF f]
  obtain c where c: "coderFor (coders lib) f = Some c" "Format c = f"
    by blast
  from f have "f \<noteq> []" by (rule format_tokens_nonempty)
  with c have "coder_with guess (coders lib) p f action = Inr c" for guess p action
    by (simp add: coder_with_explicit)
  with c show ?thesis by (auto simp: coder_def)
qed

text \<open>
  The theorem at \<^verbatim>\<open>-d json\<close> with the path \<^verbatim>\<open>data.yaml\<close>, which alone would resolve
  to \<^verbatim>\<open>yaml\<close>, with \<^verbatim>\<open>-\<close> and with no path.
\<close>

theorem explicit_format_precedence_witness:
  "''json'' \<in> format_tokens \<and>
   guessformat (coders toy_codecs) ''data.yaml'' = Inr ''yaml'' \<and>
   (\<exists>c. Format c = ''json'' \<and>
        coder (coders toy_codecs) ''data.yaml'' ''json'' ''reading from stdin'' = Inr c \<and>
        coder (coders toy_codecs) ''-'' ''json'' ''reading from stdin'' = Inr c \<and>
        coder (coders toy_codecs) [] ''json'' ''reading from stdin'' = Inr c)"
proof -
  have tok: "''json'' \<in> format_tokens" by (simp add: format_tokens_def)
  have "guessformat (coders toy_codecs) ''data.yaml'' = Inr ''yaml''"
    by (simp add: guessformat_coders extension_examples known_extensions_def
        alias_normalized_simps)
  with tok explicit_format_precedence [OF tok, of toy_codecs] show ?thesis
    by auto
qed

subsection \<open>No format and no file name\<close>

text \<open>
  C4. With no explicit format, and the path empty or \<^verbatim>\<open>-\<close>, format resolution fails
  with the error \<^verbatim>\<open>format is required when\<close> followed by the action the caller
  described. This holds for every registry and whatever guessing would return:
  \<^verbatim>\<open>guessformat\<close> is not called.
\<close>

theorem standard_streams_need_format:
  "coder_with guess cs [] [] action = Inl (MissingFormatError action) \<and>
   coder_with guess cs ''-'' [] action = Inl (MissingFormatError action) \<and>
   coder cs [] [] action = Inl (MissingFormatError action) \<and>
   coder cs ''-'' [] action = Inl (MissingFormatError action) \<and>
   Error (MissingFormatError action) = ''format is required when '' @ action"
  by (simp add: coder_def coder_with_missing)

subsection \<open>Aliases\<close>

text \<open>
  C7. The tokens \<^verbatim>\<open>yml\<close>, \<^verbatim>\<open>tml\<close> and \<^verbatim>\<open>js\<close> given as explicit formats are
  unknown formats, for every path and whatever guessing would return; a path that ends
  in \<^verbatim>\<open>.yml\<close>, \<^verbatim>\<open>.tml\<close> or \<^verbatim>\<open>.js\<close> resolves, with no explicit format, to the binding
  of \<^verbatim>\<open>yaml\<close>, \<^verbatim>\<open>toml\<close> or \<^verbatim>\<open>json\<close>.
\<close>

theorem aliases_only_for_inference:
  "coder_with guess (coders lib) p ''yml'' action = Inl (UnknownFormat ''yml'') \<and>
   coder_with guess (coders lib) p ''tml'' action = Inl (UnknownFormat ''tml'') \<and>
   coder_with guess (coders lib) p ''js'' action = Inl (UnknownFormat ''js'') \<and>
   coder (coders lib) p ''yml'' action = Inl (UnknownFormat ''yml'') \<and>
   coder (coders lib) p ''tml'' action = Inl (UnknownFormat ''tml'') \<and>
   coder (coders lib) p ''js'' action = Inl (UnknownFormat ''js'') \<and>
   (\<exists>c. coder (coders lib) (q @ ''.yml'') [] action = Inr c \<and> Format c = ''yaml'') \<and>
   (\<exists>c. coder (coders lib) (q @ ''.tml'') [] action = Inr c \<and> Format c = ''toml'') \<and>
   (\<exists>c. coder (coders lib) (q @ ''.js'') [] action = Inr c \<and> Format c = ''json'')"
proof -
  have explicit: "coder_with g (coders lib) p ''yml'' action = Inl (UnknownFormat ''yml'')"
    "coder_with g (coders lib) p ''tml'' action = Inl (UnknownFormat ''tml'')"
    "coder_with g (coders lib) p ''js'' action = Inl (UnknownFormat ''js'')" for g
    by (simp_all add: coder_with_explicit coderFor_coders)
  have inferred:
    "\<exists>c. coder (coders lib) (q @ ''.yml'') [] action = Inr c \<and> Format c = ''yaml''"
    "\<exists>c. coder (coders lib) (q @ ''.tml'') [] action = Inr c \<and> Format c = ''toml''"
    "\<exists>c. coder (coders lib) (q @ ''.js'') [] action = Inr c \<and> Format c = ''json''"
    by (simp_all add: coder_def coder_with_guess guessformat_coders extension_dotted
        known_extensions_def alias_normalized_simps coderFor_coders)
  from explicit inferred show ?thesis
    by (simp add: coder_def)
qed

section \<open>Properties of the program\<close>

subsection \<open>The state of the operating system along a run\<close>

lemma record_event_simps [simp]:
  "trace (record_event ev w) = trace w @ [ev]"
  "fs (record_event ev w) = fs w"
  "stdin_data (record_event ev w) = stdin_data w"
  "stdout_data (record_event ev w) = stdout_data w"
  "create_refused (record_event ev w) = create_refused w"
  "close_error (record_event ev w) = close_error w"
  by (simp_all add: record_event_def)

lemma file_stream_standard:
  "name = [] \<or> name = ''-'' \<Longrightarrow>
   file_stream name format defaultfile opener w = (Inr (defaultfile, NoClose), w)"
  by (auto simp: file_stream_def)

text \<open>What the two calls of \<open>file_stream\<close> in \<open>main\<close> can return.\<close>

lemma file_stream_os_Open_cases:
  "file_stream name format Stdin os_Open w = (r, w') \<Longrightarrow>
     (name = [] \<or> name = ''-'') \<and> r = Inr (Stdin, NoClose) \<and> w' = w
   \<or> name \<noteq> [] \<and> name \<noteq> ''-'' \<and> w' = record_event (EvOpen name) w \<and>
      (r = Inr (OpenedFile name, CloseFile (OpenedFile name)) \<or> (\<exists>err. r = Inl err))"
  by (auto simp: file_stream_def os_Open_def split: if_splits option.splits)

lemma file_stream_os_Create_cases:
  "file_stream name format Stdout os_Create w = (r, w') \<Longrightarrow>
     (name = [] \<or> name = ''-'') \<and> r = Inr (Stdout, NoClose) \<and> w' = w
   \<or> name \<noteq> [] \<and> name \<noteq> ''-'' \<and>
      (r = Inr (CreatedFile name, CloseFile (CreatedFile name)) \<and>
         w' = record_event (EvCreate name) (w\<lparr>fs := (fs w)(name \<mapsto> [])\<rparr>)
       \<or> (\<exists>err. r = Inl err) \<and> w' = record_event (EvCreate name) w)"
  by (auto simp: file_stream_def os_Create_def split: if_splits option.splits)

lemma read_all_world: "read_all f w = (input, w') \<Longrightarrow> w' = record_event (EvRead f) w"
  by (auto simp: read_all_def)

lemma write_all_trace [simp]: "trace (write_all f out w) = trace w @ [EvWrite f out]"
  by (simp add: write_all_def split: handle.split)

lemma run_closer_world:
  "run_closer c w = (r, w') \<Longrightarrow>
   w' = (case c of NoClose \<Rightarrow> w | CloseFile f \<Rightarrow> record_event (EvClose f) w)"
  by (cases c) (auto simp: Close_def)

lemma run_deferred_closes:
  "EvClose f \<in> set (trace (snd (run_deferred incloser outcloser ending w))) \<Longrightarrow>
   EvClose f \<in> set (trace w) \<or> incloser = CloseFile f \<or> outcloser = CloseFile f"
  by (auto simp: run_deferred_def split: prod.splits option.splits closer.splits
      dest!: run_closer_world)

lemma run_deferred_outcome:
  "fst (run_deferred incloser outcloser ending w) = Fatal context err \<Longrightarrow>
   ending = Fatal context err \<or>
   context = ''closing output file'' \<and> (\<exists>f. outcloser = CloseFile f) \<or>
   context = ''closing input file'' \<and> (\<exists>f. incloser = CloseFile f)"
  by (cases incloser; cases outcloser)
    (auto simp: run_deferred_def split: prod.splits option.splits)

lemma main_input_unresolved:
  "coder cs inputFile inputFormat ''reading from stdin'' = Inl err \<Longrightarrow>
   main cs inputFile inputFormat outputFile outputFormat w = (Fatal ''input'' err, w)"
  by (simp add: main_def)

lemma main_output_unresolved:
  "coder cs outputFile outputFormat ''writing to stdout'' = Inl err \<Longrightarrow>
   main cs inputFile inputFormat outputFile outputFormat w =
     (case coder cs inputFile inputFormat ''reading from stdin'' of
        Inl err' \<Rightarrow> (Fatal ''input'' err', w)
      | Inr incoder \<Rightarrow>
          (case Decode incoder of
             None \<Rightarrow> (Fatalf (NotSupportedForDecoding (Format incoder)), w)
           | Some decode \<Rightarrow> (Fatal ''output'' err, w)))"
  by (simp add: main_def split: sum.split option.split)

lemma coder_unknown_explicit:
  "f \<noteq> [] \<Longrightarrow> f \<notin> format_tokens \<Longrightarrow>
   coder (coders lib) p f action = Inl (UnknownFormat f)"
  by (simp add: coder_def coder_with_explicit coderFor_coders_None)

lemma decoding_failed_stage:
  "fst (main cs inputFile inputFormat outputFile outputFormat w) = Fatal ''decoding'' err \<Longrightarrow>
   \<exists>infile incloser w1 outfile outcloser w2.
     file_stream inputFile inputFormat Stdin os_Open w = (Inr (infile, incloser), w1) \<and>
     file_stream outputFile outputFormat Stdout os_Create w1 = (Inr (outfile, outcloser), w2) \<and>
     main cs inputFile inputFormat outputFile outputFormat w =
       (Fatal ''decoding'' err, record_event (EvRead infile) w2)"
  by (auto simp: main_def read_all_def split: sum.splits option.splits prod.splits
      dest!: run_deferred_outcome)

text \<open>Rewrite rules that run the program on concrete arguments.\<close>

lemmas run_simps =
  main_def coder_def coder_with_def guessformat_unfold coders_def
  extension_examples alias_normalized_simps
  file_stream_def os_Open_def os_Create_def Close_def read_all_def write_all_def
  run_deferred_def record_event_def toy_codecs_def toy_read_def sample_world_def

lemma run_truncated_stdin:
  "main (coders toy_codecs) ''-'' ''json'' ''out.yaml'' [] sample_world =
     (Fatal ''decoding'' (External ''unexpected end of input''),
      sample_world\<lparr>fs := (fs sample_world)(''out.yaml'' \<mapsto> []),
                    trace := [EvCreate ''out.yaml'', EvRead Stdin]\<rparr>)"
  by (simp add: run_simps)

lemma run_to_stdout:
  "main (coders toy_codecs) ''in.json'' [] ''-'' ''yaml'' sample_world =
     (Returned,
      sample_world\<lparr>stdout_data := ''yaml'',
                    trace := [EvOpen ''in.json'', EvRead (OpenedFile ''in.json''),
                              EvWrite Stdout ''yaml'', EvClose (OpenedFile ''in.json'')]\<rparr>)"
  by (simp add: run_simps)

lemma write_all_Stdout [simp]:
  "stdout_data (write_all Stdout out w) = stdout_data w @ out"
  "fs (write_all Stdout out w) = fs w"
  by (simp_all add: write_all_def)

lemma run_closer_frame:
  "stdout_data (snd (run_closer c w)) = stdout_data w"
  "fs (snd (run_closer c w)) = fs w"
  "set (trace w) \<subseteq> set (trace (snd (run_closer c w)))"
  by (cases c; auto simp: Close_def)+

lemma run_deferred_frame:
  "stdout_data (snd (run_deferred incloser outcloser ending w)) = stdout_data w"
  "fs (snd (run_deferred incloser outcloser ending w)) = fs w"
  "set (trace w) \<subseteq> set (trace (snd (run_deferred incloser outcloser ending w)))"
  by (cases incloser; cases outcloser;
      auto simp: run_deferred_def Close_def split: prod.splits option.splits)+

lemma run_deferred_events:
  "ev \<in> set (trace (snd (run_deferred incloser outcloser ending w))) \<Longrightarrow>
   ev \<in> set (trace w) \<or> (\<exists>f. ev = EvClose f)"
  by (cases incloser; cases outcloser)
    (auto simp: run_deferred_def Close_def split: prod.splits option.splits)

lemma main_reads_standard_input:
  assumes "inputFile = [] \<or> inputFile = ''-''"
  shows "EvRead g \<in> set (trace (snd (main cs inputFile inputFormat outputFile outputFormat w))) \<Longrightarrow>
     EvRead g \<in> set (trace w) \<or> g = Stdin"
    and "EvOpen n \<in> set (trace (snd (main cs inputFile inputFormat outputFile outputFormat w))) \<Longrightarrow>
     EvOpen n \<in> set (trace w)"
  using assms
  by (auto simp: main_def file_stream_standard split: sum.splits option.splits prod.splits
      dest!: file_stream_os_Create_cases read_all_world run_deferred_events)

lemma main_writes_standard_output:
  assumes "outputFile = [] \<or> outputFile = ''-''"
  shows "EvWrite g out \<in> set (trace (snd (main cs inputFile inputFormat outputFile outputFormat w))) \<Longrightarrow>
     EvWrite g out \<in> set (trace w) \<or> g = Stdout"
    and "EvCreate n \<in> set (trace (snd (main cs inputFile inputFormat outputFile outputFormat w))) \<Longrightarrow>
     EvCreate n \<in> set (trace w)"
    and "fs (snd (main cs inputFile inputFormat outputFile outputFormat w)) = fs w"
  using assms
  by (auto simp: main_def file_stream_standard run_deferred_frame
      split: sum.splits option.splits prod.splits
      dest!: file_stream_os_Open_cases read_all_world run_deferred_events)

lemma main_from_standard_input:
  assumes "inputFile = [] \<or> inputFile = ''-''"
    and "coder cs inputFile inputFormat ''reading from stdin'' = Inr incoder"
    and "Decode incoder = Some decode"
    and "coder cs outputFile outputFormat ''writing to stdout'' = Inr outcoder"
    and "Decode outcoder = Some unused"
    and "file_stream outputFile outputFormat Stdout os_Create w = (Inr (outfile, outcloser), wo)"
  shows "main cs inputFile inputFormat outputFile outputFormat w =
     (case decode Map.empty (stdin_data w) of
        Inl e \<Rightarrow> (Fatal ''decoding'' e, record_event (EvRead Stdin) wo)
      | Inr data \<Rightarrow>
          (case Encode outcoder of
             None \<Rightarrow> run_deferred NoClose outcloser Panic (record_event (EvRead Stdin) wo)
           | Some encode \<Rightarrow>
               (case encode data of
                  (out, Some e) \<Rightarrow>
                    (Fatal ''encoding'' e, write_all outfile out (record_event (EvRead Stdin) wo))
                | (out, None) \<Rightarrow>
                    run_deferred NoClose outcloser Returned
                      (write_all outfile out (record_event (EvRead Stdin) wo)))))"
proof -
  from file_stream_os_Create_cases [OF assms(6)] have "stdin_data wo = stdin_data w"
    by auto
  with assms show ?thesis
    by (simp add: main_def file_stream_standard read_all_def)
qed

lemma main_to_standard_output:
  assumes "outputFile = [] \<or> outputFile = ''-''"
    and "coder cs inputFile inputFormat ''reading from stdin'' = Inr incoder"
    and "Decode incoder = Some decode"
    and "coder cs outputFile outputFormat ''writing to stdout'' = Inr outcoder"
    and "Decode outcoder = Some unused"
    and "file_stream inputFile inputFormat Stdin os_Open w = (Inr (infile, incloser), wi)"
    and "decode Map.empty (fst (read_all infile wi)) = Inr data"
    and "Encode outcoder = Some encode"
    and "encode data = (out, r)"
  shows "main cs inputFile inputFormat outputFile outputFormat w =
     (case r of
        Some e \<Rightarrow> (Fatal ''encoding'' e, write_all Stdout out (record_event (EvRead infile) wi))
      | None \<Rightarrow>
          run_deferred incloser NoClose Returned
            (write_all Stdout out (record_event (EvRead infile) wi)))"
    and "stdout_data (snd (main cs inputFile inputFormat outputFile outputFormat w)) =
      stdout_data w @ out"
    and "EvWrite Stdout out \<in>
      set (trace (snd (main cs inputFile inputFormat outputFile outputFormat w)))"
proof -
  show eq: "main cs inputFile inputFormat outputFile outputFormat w =
     (case r of
        Some e \<Rightarrow> (Fatal ''encoding'' e, write_all Stdout out (record_event (EvRead infile) wi))
      | None \<Rightarrow>
          run_deferred incloser NoClose Returned
            (write_all Stdout out (record_event (EvRead infile) wi)))"
    using assms by (simp add: main_def file_stream_standard read_all_def split: option.split)
  from file_stream_os_Open_cases [OF assms(6)] have wi: "stdout_data wi = stdout_data w"
    by auto
  then show "stdout_data (snd (main cs inputFile inputFormat outputFile outputFormat w)) =
      stdout_data w @ out"
    by (simp add: eq run_deferred_frame split: option.split)
  have "EvWrite Stdout out \<in> set (trace (write_all Stdout out (record_event (EvRead infile) wi)))"
    by simp
  with run_deferred_frame(3)
    [of "write_all Stdout out (record_event (EvRead infile) wi)" incloser NoClose Returned]
  show "EvWrite Stdout out \<in>
      set (trace (snd (main cs inputFile inputFormat outputFile outputFormat w)))"
    by (auto simp: eq split: option.split)
qed

lemma run_pipe:
  "main (coders toy_codecs) ''-'' ''json'' [] ''yaml'' piped_world =
     (Returned,
      piped_world\<lparr>stdout_data := ''yaml'',
                   trace := [EvRead Stdin, EvWrite Stdout ''yaml'']\<rparr>)"
  by (simp add: run_simps piped_world_def)

subsection \<open>The tests against \<^verbatim>\<open>nil\<close>\<close>

text \<open>
  What the program does with an output binding whose \<^verbatim>\<open>Decode\<close> is \<^verbatim>\<open>nil\<close>: it leaves
  with the message about encoding, whatever \<^verbatim>\<open>Encode\<close> is.
\<close>

lemma output_check_on_Decode:
  "coder cs inputFile inputFormat ''reading from stdin'' = Inr incoder \<Longrightarrow>
   Decode incoder = Some decode \<Longrightarrow>
   coder cs outputFile outputFormat ''writing to stdout'' = Inr outcoder \<Longrightarrow>
   Decode outcoder = None \<Longrightarrow>
   main cs inputFile inputFormat outputFile outputFormat w =
     (Fatalf (NotSupportedForEncoding (Format outcoder)), w)"
  by (simp add: main_def)

text \<open>
  Each binding of the program's registry has both functions, so a format that resolves
  can be decoded and encoded: no run of the program ends with one of the two messages
  \<^verbatim>\<open>not supported for\<close>, and no run calls a \<^verbatim>\<open>nil\<close> function.
\<close>

lemma coder_coders_complete:
  "coder (coders lib) file format action = Inr c \<Longrightarrow>
   \<exists>decode encode. Decode c = Some decode \<and> Encode c = Some encode"
  by (auto simp: coder_def coder_with_def coderFor_coders
      split: if_splits sum.splits option.splits)

lemma run_deferred_ending:
  "fst (run_deferred incloser outcloser ending w) = ending \<or>
   (\<exists>context err. fst (run_deferred incloser outcloser ending w) = Fatal context err)"
  by (cases incloser; cases outcloser)
    (auto simp: run_deferred_def split: prod.splits option.splits)

lemma run_deferred_Returned:
  "fst (run_deferred incloser outcloser Returned w) \<noteq> Fatalf u"
  "fst (run_deferred incloser outcloser Returned w) \<noteq> Panic"
  using run_deferred_ending [of incloser outcloser Returned w] by auto

lemma registry_never_unsupported:
  "fst (main (coders lib) inputFile inputFormat outputFile outputFormat w) \<noteq> Fatalf u \<and>
   fst (main (coders lib) inputFile inputFormat outputFile outputFormat w) \<noteq> Panic"
proof (cases "coder (coders lib) inputFile inputFormat ''reading from stdin''")
  case (Inl err)
  then show ?thesis by (simp add: main_def)
next
  case incoder: (Inr incoder)
  from coder_coders_complete [OF incoder]
  obtain decode where decode: "Decode incoder = Some decode" by blast
  show ?thesis
  proof (cases "coder (coders lib) outputFile outputFormat ''writing to stdout''")
    case (Inl err)
    with incoder decode show ?thesis by (simp add: main_def)
  next
    case outcoder: (Inr outcoder)
    from coder_coders_complete [OF outcoder]
    obtain unused encode where "Decode outcoder = Some unused" "Encode outcoder = Some encode"
      by blast
    with incoder decode outcoder show ?thesis
      by (simp add: main_def run_deferred_Returned split: prod.split sum.split option.split)
  qed
qed

subsection \<open>A failed decode\<close>

text \<open>
  C6. When the run reaches the decoder (both formats resolved, both streams open) and
  the decoder returns an error, the program leaves with
  \<^verbatim>\<open>FatalIfError(err, "decoding")\<close> in the state the read of the input left. Whenever
  a run ends so, the encoder was not called: standard output has received nothing, no
  write has been added to the calls made, and an output file given by name is empty (it
  was truncated when it was opened).
\<close>

theorem decode_failure_writes_nothing:
  "(coder cs inputFile inputFormat ''reading from stdin'' = Inr incoder \<and>
    Decode incoder = Some decode \<and>
    coder cs outputFile outputFormat ''writing to stdout'' = Inr outcoder \<and>
    Decode outcoder = Some unused \<and>
    file_stream inputFile inputFormat Stdin os_Open w = (Inr (infile, incloser), w1) \<and>
    file_stream outputFile outputFormat Stdout os_Create w1 = (Inr (outfile, outcloser), w2) \<and>
    decode Map.empty (fst (read_all infile w2)) = Inl err \<longrightarrow>
      main cs inputFile inputFormat outputFile outputFormat w =
        (Fatal ''decoding'' err, record_event (EvRead infile) w2)) \<and>
   (fst (main cs inputFile inputFormat outputFile outputFormat w) = Fatal ''decoding'' err \<longrightarrow>
      stdout_data (snd (main cs inputFile inputFormat outputFile outputFormat w)) =
        stdout_data w \<and>
      (\<forall>f out.
         EvWrite f out \<in> set (trace (snd (main cs inputFile inputFormat outputFile outputFormat w)))
           \<longrightarrow> EvWrite f out \<in> set (trace w)) \<and>
      (outputFile \<noteq> [] \<and> outputFile \<noteq> ''-'' \<longrightarrow>
         fs (snd (main cs inputFile inputFormat outputFile outputFormat w)) outputFile = Some []))"
proof (intro conjI impI allI)
  assume "coder cs inputFile inputFormat ''reading from stdin'' = Inr incoder \<and>
    Decode incoder = Some decode \<and>
    coder cs outputFile outputFormat ''writing to stdout'' = Inr outcoder \<and>
    Decode outcoder = Some unused \<and>
    file_stream inputFile inputFormat Stdin os_Open w = (Inr (infile, incloser), w1) \<and>
    file_stream outputFile outputFormat Stdout os_Create w1 = (Inr (outfile, outcloser), w2) \<and>
    decode Map.empty (fst (read_all infile w2)) = Inl err"
  then show "main cs inputFile inputFormat outputFile outputFormat w =
        (Fatal ''decoding'' err, record_event (EvRead infile) w2)"
    by (simp add: main_def read_all_def)
next
  assume "fst (main cs inputFile inputFormat outputFile outputFormat w) =
    Fatal ''decoding'' err"
  from decoding_failed_stage [OF this]
  obtain infile incloser w1 outfile outcloser w2 where
    opened: "file_stream inputFile inputFormat Stdin os_Open w = (Inr (infile, incloser), w1)" and
    created: "file_stream outputFile outputFormat Stdout os_Create w1 =
      (Inr (outfile, outcloser), w2)" and
    final: "main cs inputFile inputFormat outputFile outputFormat w =
      (Fatal ''decoding'' err, record_event (EvRead infile) w2)"
    by blast
  from file_stream_os_Open_cases [OF opened]
  have w1: "stdout_data w1 = stdout_data w"
    "\<And>f out. EvWrite f out \<in> set (trace w1) \<Longrightarrow> EvWrite f out \<in> set (trace w)"
    by auto
  from file_stream_os_Create_cases [OF created]
  have w2: "stdout_data w2 = stdout_data w1"
    "\<And>f out. EvWrite f out \<in> set (trace w2) \<Longrightarrow> EvWrite f out \<in> set (trace w1)"
    "outputFile \<noteq> [] \<and> outputFile \<noteq> ''-'' \<Longrightarrow> fs w2 outputFile = Some []"
    by auto
  from w1 w2
  show "stdout_data (snd (main cs inputFile inputFormat outputFile outputFormat w)) =
        stdout_data w"
    by (simp add: final)
  {
    fix f out
    assume "EvWrite f out \<in>
      set (trace (snd (main cs inputFile inputFormat outputFile outputFormat w)))"
    with w1 w2 show "EvWrite f out \<in> set (trace w)"
      by (auto simp: final)
  }
  {
    assume "outputFile \<noteq> [] \<and> outputFile \<noteq> ''-''"
    with w2
    show "fs (snd (main cs inputFile inputFormat outputFile outputFormat w)) outputFile = Some []"
      by (simp add: final)
  }
qed

text \<open>
  The theorem at the truncated JSON document \<^verbatim>\<open>{"a":\<close> on standard input, converted
  to the file \<^verbatim>\<open>out.yaml\<close>.
\<close>

theorem decode_failure_writes_nothing_witness:
  "fst (main (coders toy_codecs) ''-'' ''json'' ''out.yaml'' [] sample_world) =
     Fatal ''decoding'' (External ''unexpected end of input'') \<and>
   stdout_data (snd (main (coders toy_codecs) ''-'' ''json'' ''out.yaml'' [] sample_world)) = [] \<and>
   fs (snd (main (coders toy_codecs) ''-'' ''json'' ''out.yaml'' [] sample_world)) ''out.yaml'' =
     Some [] \<and>
   trace (snd (main (coders toy_codecs) ''-'' ''json'' ''out.yaml'' [] sample_world)) =
     [EvCreate ''out.yaml'', EvRead Stdin]"
proof -
  have failed: "fst (main (coders toy_codecs) ''-'' ''json'' ''out.yaml'' [] sample_world) =
     Fatal ''decoding'' (External ''unexpected end of input'')"
    by (simp add: run_truncated_stdin)
  have "stdout_data sample_world = []" "''out.yaml'' \<noteq> [] \<and> ''out.yaml'' \<noteq> ''-''"
    by (simp_all add: sample_world_def)
  with failed decode_failure_writes_nothing [THEN conjunct2, rule_format, OF failed]
  show ?thesis
    by (simp add: run_truncated_stdin)
qed

subsection \<open>Resolution comes before the streams\<close>

text \<open>
  C8. When the resolution of the input format fails, the program leaves with that
  error in the state it started in; when the resolution of the output format fails,
  it leaves with an error in the state it started in. No file has been opened, created
  or truncated: no call has been made. In particular a non-empty token that is not one
  of \<^verbatim>\<open>json\<close>, \<^verbatim>\<open>yaml\<close>, \<^verbatim>\<open>toml\<close>, given as \<^verbatim>\<open>-d\<close> or as \<^verbatim>\<open>-e\<close>, ends the run so.
\<close>

theorem resolution_failure_before_io:
  "(coder cs inputFile inputFormat ''reading from stdin'' = Inl err \<longrightarrow>
      main cs inputFile inputFormat outputFile outputFormat w = (Fatal ''input'' err, w)) \<and>
   (coder cs outputFile outputFormat ''writing to stdout'' = Inl err \<longrightarrow>
      snd (main cs inputFile inputFormat outputFile outputFormat w) = w \<and>
      exits_with_error (fst (main cs inputFile inputFormat outputFile outputFormat w))) \<and>
   (f \<noteq> [] \<and> f \<notin> format_tokens \<longrightarrow>
      main (coders lib) inputFile f outputFile outputFormat w =
        (Fatal ''input'' (UnknownFormat f), w) \<and>
      snd (main (coders lib) inputFile inputFormat outputFile f w) = w \<and>
      exits_with_error (fst (main (coders lib) inputFile inputFormat outputFile f w)))"
proof (intro conjI impI)
  assume "coder cs inputFile inputFormat ''reading from stdin'' = Inl err"
  then show "main cs inputFile inputFormat outputFile outputFormat w = (Fatal ''input'' err, w)"
    by (rule main_input_unresolved)
next
  assume out: "coder cs outputFile outputFormat ''writing to stdout'' = Inl err"
  show "snd (main cs inputFile inputFormat outputFile outputFormat w) = w"
    by (simp add: main_output_unresolved [OF out] split: sum.split option.split)
  show "exits_with_error (fst (main cs inputFile inputFormat outputFile outputFormat w))"
    by (simp add: main_output_unresolved [OF out] exits_with_error_def
        split: sum.split option.split)
next
  assume f: "f \<noteq> [] \<and> f \<notin> format_tokens"
  then have unknown: "coder (coders lib) p f action = Inl (UnknownFormat f)" for p action
    by (simp add: coder_unknown_explicit)
  show "main (coders lib) inputFile f outputFile outputFormat w =
        (Fatal ''input'' (UnknownFormat f), w)"
    by (rule main_input_unresolved) (rule unknown)
  show "snd (main (coders lib) inputFile inputFormat outputFile f w) = w"
    by (simp add: main_output_unresolved [OF unknown] split: sum.split option.split)
  show "exits_with_error (fst (main (coders lib) inputFile inputFormat outputFile f w))"
    by (simp add: main_output_unresolved [OF unknown] exits_with_error_def
        split: sum.split option.split)
qed

text \<open>The theorem at the token \<^verbatim>\<open>foo\<close>, given as \<^verbatim>\<open>-d\<close> and as \<^verbatim>\<open>-e\<close>.\<close>

theorem resolution_failure_before_io_witness:
  "''foo'' \<noteq> [] \<and> ''foo'' \<notin> format_tokens \<and>
   main (coders toy_codecs) ''in.json'' ''foo'' ''out.yaml'' [] sample_world =
     (Fatal ''input'' (UnknownFormat ''foo''), sample_world) \<and>
   snd (main (coders toy_codecs) ''in.json'' [] ''out.yaml'' ''foo'' sample_world) = sample_world \<and>
   exits_with_error (fst (main (coders toy_codecs) ''in.json'' [] ''out.yaml'' ''foo'' sample_world))"
proof -
  have unknown: "''foo'' \<noteq> [] \<and> ''foo'' \<notin> format_tokens"
    by (simp add: format_tokens_def)
  with resolution_failure_before_io [where f = "''foo''" and lib = toy_codecs and
      inputFile = "''in.json''" and inputFormat = "[]" and outputFile = "''out.yaml''" and
      outputFormat = "[]" and w = sample_world and cs = "coders toy_codecs" and
      err = "UnknownFormat ''foo''"]
  show ?thesis by simp
qed

subsection \<open>The standard streams\<close>

text \<open>
  C9. For a path that is empty or \<^verbatim>\<open>-\<close>, \<open>file_stream\<close> returns the standard stream it
  was given, without calling the opener, together with the function that does nothing
  and returns no error. Along a run of the program, a stream that is closed is the file
  opened under the name of the input or the file created under the name of the output,
  a name that is neither empty nor \<^verbatim>\<open>-\<close>; and a run whose input (output) is the
  standard stream does not end with the error of closing the input (output) file.

  The program puts standard input in the place of such an input path: no file is
  opened, every read is a read of standard input, and once both formats are resolved
  and the output is open, the decoder is given the bytes waiting on standard input and
  the run goes on with no function to close the input. It puts standard output in the
  place of such an output path: no file is created and no file changes, every write is
  a write to standard output, and once the input is decoded, the bytes the encoder
  produced are appended to standard output and the run goes on with no function to
  close the output.
\<close>

theorem standard_streams_never_closed:
  "(name = [] \<or> name = ''-'' \<longrightarrow>
      file_stream name format defaultfile opener w = (Inr (defaultfile, NoClose), w) \<and>
      run_closer NoClose w' = (None, w')) \<and>
   (EvClose f \<in> set (trace (snd (main cs inputFile inputFormat outputFile outputFormat w))) \<longrightarrow>
      EvClose f \<in> set (trace w) \<or>
      f = OpenedFile inputFile \<and> inputFile \<noteq> [] \<and> inputFile \<noteq> ''-'' \<or>
      f = CreatedFile outputFile \<and> outputFile \<noteq> [] \<and> outputFile \<noteq> ''-'') \<and>
   (inputFile = [] \<or> inputFile = ''-'' \<longrightarrow>
      fst (main cs inputFile inputFormat outputFile outputFormat w) \<noteq>
        Fatal ''closing input file'' err) \<and>
   (outputFile = [] \<or> outputFile = ''-'' \<longrightarrow>
      fst (main cs inputFile inputFormat outputFile outputFormat w) \<noteq>
        Fatal ''closing output file'' err) \<and>
   (inputFile = [] \<or> inputFile = ''-'' \<longrightarrow>
      (EvRead g \<in> set (trace (snd (main cs inputFile inputFormat outputFile outputFormat w)))
         \<longrightarrow> EvRead g \<in> set (trace w) \<or> g = Stdin) \<and>
      (EvOpen n \<in> set (trace (snd (main cs inputFile inputFormat outputFile outputFormat w)))
         \<longrightarrow> EvOpen n \<in> set (trace w))) \<and>
   (outputFile = [] \<or> outputFile = ''-'' \<longrightarrow>
      (EvWrite g written \<in>
         set (trace (snd (main cs inputFile inputFormat outputFile outputFormat w)))
         \<longrightarrow> EvWrite g written \<in> set (trace w) \<or> g = Stdout) \<and>
      (EvCreate n \<in> set (trace (snd (main cs inputFile inputFormat outputFile outputFormat w)))
         \<longrightarrow> EvCreate n \<in> set (trace w)) \<and>
      fs (snd (main cs inputFile inputFormat outputFile outputFormat w)) = fs w) \<and>
   ((inputFile = [] \<or> inputFile = ''-'') \<and>
    coder cs inputFile inputFormat ''reading from stdin'' = Inr incoder \<and>
    Decode incoder = Some decode \<and>
    coder cs outputFile outputFormat ''writing to stdout'' = Inr outcoder \<and>
    Decode outcoder = Some unused \<and>
    file_stream outputFile outputFormat Stdout os_Create w = (Inr (outfile, outcloser), wo) \<longrightarrow>
      main cs inputFile inputFormat outputFile outputFormat w =
        (case decode Map.empty (stdin_data w) of
           Inl e \<Rightarrow> (Fatal ''decoding'' e, record_event (EvRead Stdin) wo)
         | Inr data \<Rightarrow>
             (case Encode outcoder of
                None \<Rightarrow> run_deferred NoClose outcloser Panic (record_event (EvRead Stdin) wo)
              | Some encode \<Rightarrow>
                  (case encode data of
                     (out, Some e) \<Rightarrow>
                       (Fatal ''encoding'' e,
                        write_all outfile out (record_event (EvRead Stdin) wo))
                   | (out, None) \<Rightarrow>
                       run_deferred NoClose outcloser Returned
                         (write_all outfile out (record_event (EvRead Stdin) wo)))))) \<and>
   ((outputFile = [] \<or> outputFile = ''-'') \<and>
    coder cs inputFile inputFormat ''reading from stdin'' = Inr incoder \<and>
    Decode incoder = Some decode \<and>
    coder cs outputFile outputFormat ''writing to stdout'' = Inr outcoder \<and>
    Decode outcoder = Some unused \<and>
    file_stream inputFile inputFormat Stdin os_Open w = (Inr (infile, incloser), wi) \<and>
    decode Map.empty (fst (read_all infile wi)) = Inr decoded \<and>
    Encode outcoder = Some encode \<and>
    encode decoded = (produced, r) \<longrightarrow>
      main cs inputFile inputFormat outputFile outputFormat w =
        (case r of
           Some e \<Rightarrow>
             (Fatal ''encoding'' e, write_all Stdout produced (record_event (EvRead infile) wi))
         | None \<Rightarrow>
             run_deferred incloser NoClose Returned
               (write_all Stdout produced (record_event (EvRead infile) wi))) \<and>
      stdout_data (snd (main cs inputFile inputFormat outputFile outputFormat w)) =
        stdout_data w @ produced \<and>
      EvWrite Stdout produced \<in>
        set (trace (snd (main cs inputFile inputFormat outputFile outputFormat w))))"
proof (intro conjI impI)
  assume "name = [] \<or> name = ''-''"
  then show "file_stream name format defaultfile opener w = (Inr (defaultfile, NoClose), w)"
    by (rule file_stream_standard)
next
  show "run_closer NoClose w' = (None, w')" by simp
next
  assume "EvClose f \<in> set (trace (snd (main cs inputFile inputFormat outputFile outputFormat w)))"
  then show "EvClose f \<in> set (trace w) \<or>
      f = OpenedFile inputFile \<and> inputFile \<noteq> [] \<and> inputFile \<noteq> ''-'' \<or>
      f = CreatedFile outputFile \<and> outputFile \<noteq> [] \<and> outputFile \<noteq> ''-''"
    by (auto simp: main_def split: sum.splits option.splits prod.splits
        dest!: file_stream_os_Open_cases file_stream_os_Create_cases read_all_world
          run_deferred_closes)
next
  assume "inputFile = [] \<or> inputFile = ''-''"
  then show "fst (main cs inputFile inputFormat outputFile outputFormat w) \<noteq>
        Fatal ''closing input file'' err"
    by (auto simp: main_def file_stream_standard split: sum.splits option.splits prod.splits
        dest!: run_deferred_outcome)
next
  assume "outputFile = [] \<or> outputFile = ''-''"
  then show "fst (main cs inputFile inputFormat outputFile outputFormat w) \<noteq>
        Fatal ''closing output file'' err"
    by (auto simp: main_def file_stream_standard split: sum.splits option.splits prod.splits
        dest!: run_deferred_outcome)
next
  assume "inputFile = [] \<or> inputFile = ''-''"
    and "EvRead g \<in> set (trace (snd (main cs inputFile inputFormat outputFile outputFormat w)))"
  then show "EvRead g \<in> set (trace w) \<or> g = Stdin"
    by (rule main_reads_standard_input(1))
next
  assume "inputFile = [] \<or> inputFile = ''-''"
    and "EvOpen n \<in> set (trace (snd (main cs inputFile inputFormat outputFile outputFormat w)))"
  then show "EvOpen n \<in> set (trace w)"
    by (rule main_reads_standard_input(2))
next
  assume "outputFile = [] \<or> outputFile = ''-''"
    and "EvWrite g written \<in>
      set (trace (snd (main cs inputFile inputFormat outputFile outputFormat w)))"
  then show "EvWrite g written \<in> set (trace w) \<or> g = Stdout"
    by (rule main_writes_standard_output(1))
next
  assume "outputFile = [] \<or> outputFile = ''-''"
    and "EvCreate n \<in> set (trace (snd (main cs inputFile inputFormat outputFile outputFormat w)))"
  then show "EvCreate n \<in> set (trace w)"
    by (rule main_writes_standard_output(2))
next
  assume "outputFile = [] \<or> outputFile = ''-''"
  then show "fs (snd (main cs inputFile inputFormat outputFile outputFormat w)) = fs w"
    by (rule main_writes_standard_output(3))
next
  assume "(inputFile = [] \<or> inputFile = ''-'') \<and>
    coder cs inputFile inputFormat ''reading from stdin'' = Inr incoder \<and>
    Decode incoder = Some decode \<and>
    coder cs outputFile outputFormat ''writing to stdout'' = Inr outcoder \<and>
    Decode outcoder = Some unused \<and>
    file_stream outputFile outputFormat Stdout os_Create w = (Inr (outfile, outcloser), wo)"
  then show "main cs inputFile inputFormat outputFile outputFormat w =
        (case decode Map.empty (stdin_data w) of
           Inl e \<Rightarrow> (Fatal ''decoding'' e, record_event (EvRead Stdin) wo)
         | Inr data \<Rightarrow>
             (case Encode outcoder of
                None \<Rightarrow> run_deferred NoClose outcloser Panic (record_event (EvRead Stdin) wo)
              | Some encode \<Rightarrow>
                  (case encode data of
                     (out, Some e) \<Rightarrow>
                       (Fatal ''encoding'' e,
                        write_all outfile out (record_event (EvRead Stdin) wo))
                   | (out, None) \<Rightarrow>
                       run_deferred NoClose outcloser Returned
                         (write_all outfile out (record_event (EvRead Stdin) wo)))))"
    by (elim conjE)
      (rule main_from_standard_input [where incoder = incoder and decode = decode and
          outcoder = outcoder and unused = unused and outfile = outfile and
          outcloser = outcloser and wo = wo]; assumption)
next
  assume to_stdout: "(outputFile = [] \<or> outputFile = ''-'') \<and>
    coder cs inputFile inputFormat ''reading from stdin'' = Inr incoder \<and>
    Decode incoder = Some decode \<and>
    coder cs outputFile outputFormat ''writing to stdout'' = Inr outcoder \<and>
    Decode outcoder = Some unused \<and>
    file_stream inputFile inputFormat Stdin os_Open w = (Inr (infile, incloser), wi) \<and>
    decode Map.empty (fst (read_all infile wi)) = Inr decoded \<and>
    Encode outcoder = Some encode \<and>
    encode decoded = (produced, r)"
  then show "main cs inputFile inputFormat outputFile outputFormat w =
        (case r of
           Some e \<Rightarrow>
             (Fatal ''encoding'' e, write_all Stdout produced (record_event (EvRead infile) wi))
         | None \<Rightarrow>
             run_deferred incloser NoClose Returned
               (write_all Stdout produced (record_event (EvRead infile) wi)))"
    by (elim conjE)
      (rule main_to_standard_output(1) [where incoder = incoder and decode = decode and
          outcoder = outcoder and unused = unused and infile = infile and
          incloser = incloser and wi = wi and data = decoded and encode = encode and
          out = produced and r = r]; assumption)
  from to_stdout
  show "stdout_data (snd (main cs inputFile inputFormat outputFile outputFormat w)) =
        stdout_data w @ produced"
    by (elim conjE)
      (rule main_to_standard_output(2) [where incoder = incoder and decode = decode and
          outcoder = outcoder and unused = unused and infile = infile and
          incloser = incloser and wi = wi and data = decoded and encode = encode and
          out = produced and r = r]; assumption)
  from to_stdout
  show "EvWrite Stdout produced \<in>
        set (trace (snd (main cs inputFile inputFormat outputFile outputFormat w)))"
    by (elim conjE)
      (rule main_to_standard_output(3) [where incoder = incoder and decode = decode and
          outcoder = outcoder and unused = unused and infile = infile and
          incloser = incloser and wi = wi and data = decoded and encode = encode and
          out = produced and r = r]; assumption)
qed

text \<open>
  The theorem at a conversion of the file \<^verbatim>\<open>in.json\<close> to standard output (the file is
  closed, standard output is not) and at a run as a pipe filter, from standard input to
  standard output.
\<close>

theorem standard_streams_never_closed_witness:
  "file_stream ''-'' ''yaml'' Stdout os_Create sample_world = (Inr (Stdout, NoClose), sample_world) \<and>
   run_closer NoClose sample_world = (None, sample_world) \<and>
   fst (main (coders toy_codecs) ''in.json'' [] ''-'' ''yaml'' sample_world) = Returned \<and>
   EvClose (OpenedFile ''in.json'') \<in>
     set (trace (snd (main (coders toy_codecs) ''in.json'' [] ''-'' ''yaml'' sample_world))) \<and>
   EvClose Stdout \<notin>
     set (trace (snd (main (coders toy_codecs) ''in.json'' [] ''-'' ''yaml'' sample_world))) \<and>
   fst (main (coders toy_codecs) ''-'' ''json'' [] ''yaml'' piped_world) = Returned \<and>
   stdout_data (snd (main (coders toy_codecs) ''-'' ''json'' [] ''yaml'' piped_world)) = ''yaml'' \<and>
   fs (snd (main (coders toy_codecs) ''-'' ''json'' [] ''yaml'' piped_world)) = fs piped_world \<and>
   trace (snd (main (coders toy_codecs) ''-'' ''json'' [] ''yaml'' piped_world)) =
     [EvRead Stdin, EvWrite Stdout ''yaml'']"
proof -
  have start: "trace sample_world = []" "stdout_data piped_world = []"
    "stdin_data piped_world = ''{\"a\": 1}''"
    by (simp_all add: sample_world_def piped_world_def)
  have json: "coder (coders toy_codecs) ''-'' ''json'' ''reading from stdin'' =
      Inr \<lparr>Format = ''json'', Decode = Some toy_read,
           Encode = Some (\<lambda>data. (''json'', None))\<rparr>"
    and yaml: "coder (coders toy_codecs) [] ''yaml'' ''writing to stdout'' =
      Inr \<lparr>Format = ''yaml'', Decode = Some toy_read,
           Encode = Some (\<lambda>data. (''yaml'', None))\<rparr>"
    by (simp_all add: coder_def coder_with_def coders_def toy_codecs_def)
  have decoded: "toy_read Map.empty (fst (read_all Stdin piped_world)) =
      Inr [''len'' \<mapsto> length ''{\"a\": 1}'']"
    by (simp add: toy_read_def read_all_def start)
  note to_file = standard_streams_never_closed [where name = "''-''" and format = "''yaml''" and
      defaultfile = Stdout and opener = os_Create and w = sample_world and w' = sample_world and
      f = Stdout and cs = "coders toy_codecs" and inputFile = "''in.json''" and
      inputFormat = "[]" and outputFile = "''-''" and outputFormat = "''yaml''",
      THEN conjunct2, THEN conjunct1]
  note pipe = standard_streams_never_closed [where cs = "coders toy_codecs" and
      inputFile = "''-''" and inputFormat = "''json''" and outputFile = "[]" and
      outputFormat = "''yaml''" and w = piped_world and
      incoder = "\<lparr>Format = ''json'', Decode = Some toy_read,
                  Encode = Some (\<lambda>data. (''json'', None))\<rparr>" and
      decode = toy_read and
      outcoder = "\<lparr>Format = ''yaml'', Decode = Some toy_read,
                   Encode = Some (\<lambda>data. (''yaml'', None))\<rparr>" and
      unused = toy_read and infile = Stdin and incloser = NoClose and wi = piped_world and
      decoded = "[''len'' \<mapsto> length ''{\"a\": 1}'']" and encode = "\<lambda>data. (''yaml'', None)" and
      produced = "''yaml''" and r = None and outfile = Stdout and outcloser = NoClose and
      wo = piped_world and name = "''-''" and format = "''json''" and defaultfile = Stdin and
      opener = os_Open and w' = piped_world and f = Stdin and g = Stdin and
      n = "''in.json''" and written = "''yaml''" and err = "External []"]
  note to_stdout = pipe [THEN conjunct2, THEN conjunct2, THEN conjunct2, THEN conjunct2,
      THEN conjunct2, THEN conjunct2, THEN conjunct2]
  note no_file = pipe [THEN conjunct2, THEN conjunct2, THEN conjunct2, THEN conjunct2,
      THEN conjunct2, THEN conjunct1]
  from json yaml decoded
  have "([] = [] \<or> [] = ''-'') \<and>
    coder (coders toy_codecs) ''-'' ''json'' ''reading from stdin'' =
      Inr \<lparr>Format = ''json'', Decode = Some toy_read,
           Encode = Some (\<lambda>data. (''json'', None))\<rparr> \<and>
    Decode \<lparr>Format = ''json'', Decode = Some toy_read,
            Encode = Some (\<lambda>data. (''json'', None))\<rparr> = Some toy_read \<and>
    coder (coders toy_codecs) [] ''yaml'' ''writing to stdout'' =
      Inr \<lparr>Format = ''yaml'', Decode = Some toy_read,
           Encode = Some (\<lambda>data. (''yaml'', None))\<rparr> \<and>
    Decode \<lparr>Format = ''yaml'', Decode = Some toy_read,
            Encode = Some (\<lambda>data. (''yaml'', None))\<rparr> = Some toy_read \<and>
    file_stream ''-'' ''json'' Stdin os_Open piped_world = (Inr (Stdin, NoClose), piped_world) \<and>
    toy_read Map.empty (fst (read_all Stdin piped_world)) =
      Inr [''len'' \<mapsto> length ''{\"a\": 1}''] \<and>
    Encode \<lparr>Format = ''yaml'', Decode = Some toy_read,
            Encode = Some (\<lambda>data. (''yaml'', None))\<rparr> = Some (\<lambda>data. (''yaml'', None)) \<and>
    (\<lambda>data. (''yaml'', None)) [''len'' \<mapsto> length ''{\"a\": 1}''] = (''yaml'', None)"
    by (simp add: file_stream_standard)
  from to_stdout [rule_format, OF this]
  have "stdout_data (snd (main (coders toy_codecs) ''-'' ''json'' [] ''yaml'' piped_world)) =
      stdout_data piped_world @ ''yaml''"
    by blast
  moreover from no_file
  have "fs (snd (main (coders toy_codecs) ''-'' ''json'' [] ''yaml'' piped_world)) = fs piped_world"
    by simp
  ultimately have piped:
    "stdout_data (snd (main (coders toy_codecs) ''-'' ''json'' [] ''yaml'' piped_world)) =
      stdout_data piped_world @ ''yaml''"
    "fs (snd (main (coders toy_codecs) ''-'' ''json'' [] ''yaml'' piped_world)) = fs piped_world"
    by simp_all
  from to_file start have "EvClose Stdout \<notin>
     set (trace (snd (main (coders toy_codecs) ''in.json'' [] ''-'' ''yaml'' sample_world)))"
    by auto
  with piped start show ?thesis
    by (simp add: run_to_stdout run_pipe file_stream_standard)
qed

section \<open>The two revisions agree\<close>

text \<open>
  On the registry of the three formats the lookups of the two revisions return the
  same bindings, so guessing and resolution agree; and since each of the three
  bindings has both functions, no \<^verbatim>\<open>nil\<close> test of the first revision fires and no
  \<^verbatim>\<open>nil\<close> call of the second panics: the two programs end in the same way in the same
  state.
\<close>

lemma coders_rev_lookup:
  "coders_rev lib f = map_option without_Format (coderFor (coders lib) f)"
  by (simp add: coders_rev_def coders_def without_Format_def)

lemma guessformat_rev_eq:
  "guessformat_rev (coders_rev lib) file = guessformat (coders lib) file"
  by (simp add: guessformat_rev_def guessformat_def coders_rev_lookup Let_def
      split: option.split)

lemma coder_rev_eq:
  "coder_rev (coders_rev lib) file format action =
     map_sum id without_Format (coder (coders lib) file format action)"
  by (simp add: coder_rev_def coder_def coder_with_def guessformat_rev_eq coders_rev_lookup
      split: sum.split option.split)

lemma main_rev_eq:
  "main_rev (coders_rev lib) inputFile inputFormat outputFile outputFormat w =
   main (coders lib) inputFile inputFormat outputFile outputFormat w"
proof (cases "coder (coders lib) inputFile inputFormat ''reading from stdin''")
  case (Inl err)
  then show ?thesis by (simp add: main_rev_def main_def coder_rev_eq)
next
  case incoder: (Inr incoder)
  from coder_coders_complete [OF incoder]
  obtain decode where decode: "Decode incoder = Some decode" by blast
  show ?thesis
  proof (cases "coder (coders lib) outputFile outputFormat ''writing to stdout''")
    case (Inl err)
    with incoder decode show ?thesis by (simp add: main_rev_def main_def coder_rev_eq)
  next
    case outcoder: (Inr outcoder)
    from coder_coders_complete [OF outcoder]
    obtain unused encode where "Decode outcoder = Some unused" "Encode outcoder = Some encode"
      by blast
    with incoder decode outcoder show ?thesis
      by (simp add: main_rev_def main_def coder_rev_eq without_Format_def
          split: prod.split sum.split)
  qed
qed

end
